theory Spec2Isabelle
  imports Main
begin

section \<open>C strings and the libc functions the module calls\<close>

text \<open>
  A C string is modelled by the list of its characters before the terminating NUL.
  A pointer into a string is the suffix of the string that starts at this position, so
  \<open>p + n\<close> is \<open>drop n p\<close>, and of two pointers into the same buffer the one with the
  longer suffix is the smaller address.
\<close>

abbreviation NUL :: char where "NUL \<equiv> CHR 0x00"
abbreviation NEWLINE :: char where "NEWLINE \<equiv> CHR 0x0A"
abbreviation DQUOTE :: char where "DQUOTE \<equiv> CHR 0x22"

definition c_str :: "string \<Rightarrow> string" where
  \<comment> \<open>the C string held by a buffer of bytes: everything before the first NUL\<close>
  "c_str buf = takeWhile (\<lambda>c. c \<noteq> NUL) buf"

definition strncmp_eq :: "string \<Rightarrow> string \<Rightarrow> nat \<Rightarrow> bool" where
  \<comment> \<open>\<open>strncmp(a, b, n) == 0\<close>\<close>
  "strncmp_eq a b n = (take n a = take n b)"

definition strchr :: "string \<Rightarrow> char \<Rightarrow> string option" where
  \<comment> \<open>pointer to the first occurrence of \<open>c\<close>, or NULL\<close>
  "strchr s c = (case dropWhile (\<lambda>x. x \<noteq> c) s of [] \<Rightarrow> None | r \<Rightarrow> Some r)"

fun strstr :: "string \<Rightarrow> string \<Rightarrow> string option" where
  "strstr [] needle = (if needle = [] then Some [] else None)"
| "strstr (c # cs) needle =
     (if take (length needle) (c # cs) = needle then Some (c # cs) else strstr cs needle)"

definition ptr_lt :: "string \<Rightarrow> string \<Rightarrow> bool" where
  \<comment> \<open>\<open>p < q\<close> for two pointers into the same buffer\<close>
  "ptr_lt p q = (length q < length p)"

definition isspace :: "char \<Rightarrow> bool" where
  "isspace c = (c = CHR '' '' \<or> c = CHR 0x09 \<or> c = CHR 0x0A \<or> c = CHR 0x0B
                \<or> c = CHR 0x0C \<or> c = CHR 0x0D)"

definition isdigit :: "char \<Rightarrow> bool" where
  "isdigit c = (48 \<le> (of_char c :: nat) \<and> (of_char c :: nat) \<le> 57)"

definition digit_val :: "char \<Rightarrow> int" where
  "digit_val c = int (of_char c) - 48"

fun digits_value :: "int \<Rightarrow> string \<Rightarrow> int" where
  "digits_value acc [] = acc"
| "digits_value acc (c # cs) =
     (if isdigit c then digits_value (10 * acc + digit_val c) cs else acc)"

definition clamp_long :: "int \<Rightarrow> int" where
  \<comment> \<open>\<open>strtol\<close> saturates at LONG_MIN and LONG_MAX (64 bits)\<close>
  "clamp_long x = max (- (2 ^ 63)) (min (2 ^ 63 - 1) x)"

definition to_int32 :: "int \<Rightarrow> int" where
  \<comment> \<open>the conversion of a long to a 32-bit int: wrap-around\<close>
  "to_int32 x = (x + 2 ^ 31) mod 2 ^ 32 - 2 ^ 31"

definition strtol :: "string \<Rightarrow> int" where
  \<comment> \<open>\<open>strtol(s, NULL, 10)\<close>: white space, an optional sign, the leading digits\<close>
  "strtol s =
     (case dropWhile isspace s of
        [] \<Rightarrow> 0
      | c # cs \<Rightarrow>
          if c = CHR ''-'' then clamp_long (- digits_value 0 cs)
          else if c = CHR ''+'' then clamp_long (digits_value 0 cs)
          else clamp_long (digits_value 0 (c # cs)))"

definition atoi :: "string \<Rightarrow> int" where
  \<comment> \<open>\<open>atoi\<close> as the GNU C library defines it: \<open>(int) strtol(s, NULL, 10)\<close>\<close>
  "atoi s = to_int32 (strtol s)"

definition scanf_d :: "string \<Rightarrow> int option" where
  \<comment> \<open>\<open>fscanf(fp, "%d", &x)\<close> on a stream holding \<open>s\<close>: \<open>None\<close> when no integer matches\<close>
  "scanf_d s =
     (case dropWhile isspace s of
        [] \<Rightarrow> None
      | c # cs \<Rightarrow>
          if c = CHR ''-'' \<or> c = CHR ''+'' then
            (case cs of [] \<Rightarrow> None
             | d # ds \<Rightarrow> if isdigit d then Some (atoi (c # cs)) else None)
          else if isdigit c then Some (atoi (c # cs)) else None)"

definition fgets :: "nat \<Rightarrow> string \<Rightarrow> string option" where
  \<comment> \<open>\<open>fgets(buf, n, fp)\<close>: at most \<open>n - 1\<close> bytes, up to and including the first
      newline; NULL at end of file\<close>
  "fgets n out =
     (if out = [] then None
      else Some (take (n - 1)
                   (takeWhile (\<lambda>c. c \<noteq> NEWLINE) out
                    @ (if NEWLINE \<in> set out then [NEWLINE] else []))))"

fun show_nat :: "nat \<Rightarrow> string" where
  "show_nat n =
     (if n < 10 then [char_of (48 + n)]
      else show_nat (n div 10) @ [char_of (48 + n mod 10)])"

definition show_int :: "int \<Rightarrow> string" where
  \<comment> \<open>what \<open>%d\<close> prints\<close>
  "show_int i = (if i < 0 then CHR ''-'' # show_nat (nat (- i)) else show_nat (nat i))"

definition snprintf :: "nat \<Rightarrow> string \<Rightarrow> string" where
  \<comment> \<open>\<open>snprintf(buf, n, ...)\<close> keeps the first \<open>n - 1\<close> characters of the text\<close>
  "snprintf n txt = take (n - 1) txt"

section \<open>The shell\<close>

text \<open>
  The module talks to the window manager by running shell commands with \<open>popen\<close>.
  The shell is a function from the command line to the text the command prints, and
  \<open>None\<close> when \<open>popen\<close> returns NULL. Every procedure that runs commands returns the
  list of the commands it ran, in order, beside its result.
\<close>

type_synonym shell = "string \<Rightarrow> string option"

definition popen_string :: "shell \<Rightarrow> string \<Rightarrow> nat \<Rightarrow> string" where
  "popen_string sh cmd output_size =
     (case sh cmd of
        None \<Rightarrow> []
      | Some out \<Rightarrow>
          (let output = (case fgets output_size out of None \<Rightarrow> [] | Some l \<Rightarrow> c_str l)
           in if output \<noteq> [] \<and> last output = NEWLINE then butlast output else output))"

definition popen_int :: "shell \<Rightarrow> string \<Rightarrow> int" where
  "popen_int sh cmd =
     (case sh cmd of
        None \<Rightarrow> 0
      | Some out \<Rightarrow> (case scanf_d out of None \<Rightarrow> 0 | Some r \<Rightarrow> r))"

definition fread_all :: "nat \<Rightarrow> string \<Rightarrow> string" where
  \<comment> \<open>the \<open>fread\<close> loop into \<open>char buffer[n]\<close>, then \<open>buffer[total] = 0\<close>\<close>
  "fread_all n out = c_str (take (n - 1) out)"

section \<open>The module\<close>

abbreviation NUM_WORKSPACES :: nat where "NUM_WORKSPACES \<equiv> 9"

text \<open>
  The fields of \<open>WorkspaceModule\<close> that hold configuration and state. The widgets, the
  colour and the thread handle are left out; \<open>running\<close> is written by another thread and is
  an input of the reader below. The two flags of the configuration and \<open>user_focused_here\<close>
  are C ints that only ever hold 0 or 1.
\<close>

record WorkspaceModule =
  all_outputs :: bool
  show_empty :: bool
  monitor_name :: string
  this_monitor_workspace :: int
  user_focused_here :: bool
  workspace_windows :: "int list"
  special_windows :: "int list"
  workspace_monitor :: "string list"
  socket_fd :: int

definition valid_module :: "WorkspaceModule \<Rightarrow> bool" where
  \<comment> \<open>the three tables are C arrays of \<open>NUM_WORKSPACES\<close> entries\<close>
  "valid_module m =
     (length (workspace_windows m) = NUM_WORKSPACES
      \<and> length (special_windows m) = NUM_WORKSPACES
      \<and> length (workspace_monitor m) = NUM_WORKSPACES)"

definition in_range :: "int \<Rightarrow> bool" where
  \<comment> \<open>\<open>ws >= 1 && ws <= NUM_WORKSPACES\<close>\<close>
  "in_range ws = (1 \<le> ws \<and> ws \<le> int NUM_WORKSPACES)"

definition incr_at :: "int list \<Rightarrow> nat \<Rightarrow> int list" where
  \<comment> \<open>\<open>a[i]++\<close>\<close>
  "incr_at a i = a[i := a ! i + 1]"

subsection \<open>Window counts from one listing of all clients\<close>

definition WORKSPACE_KEY :: string where
  "WORKSPACE_KEY = DQUOTE # ''workspace'' @ [DQUOTE]"

definition ID_KEY :: string where
  "ID_KEY = DQUOTE # ''id'' @ [DQUOTE, CHR '':'']"

definition NAME_KEY :: string where
  "NAME_KEY = DQUOTE # ''name'' @ [DQUOTE, CHR '':'']"

definition MONITOR_KEY :: string where
  "MONITOR_KEY = DQUOTE # ''monitor'' @ [DQUOTE, CHR '':'']"

definition count_entry :: "string \<Rightarrow> int list \<times> int list \<Rightarrow> int list \<times> int list" where
  \<comment> \<open>the body of the scanning loop of \<open>refresh_window_counts\<close>, at \<open>ptr\<close>\<close>
  "count_entry ptr acc =
     (let id_ptr = strstr ptr ID_KEY;
          name_ptr = strstr ptr NAME_KEY;
          ww = (case id_ptr of
                  None \<Rightarrow> fst acc
                | Some ip \<Rightarrow>
                    if (case name_ptr of None \<Rightarrow> True | Some np \<Rightarrow> ptr_lt ip np) then
                      (let ws_id = atoi (dropWhile (\<lambda>c. c = CHR '' '') (drop 5 ip))
                       in if in_range ws_id then incr_at (fst acc) (nat (ws_id - 1))
                          else fst acc)
                    else fst acc);
          sw = (case name_ptr of
                  None \<Rightarrow> snd acc
                | Some np \<Rightarrow>
                    (let q = dropWhile (\<lambda>c. c = CHR '' '' \<or> c = DQUOTE) (drop 7 np)
                     in if strncmp_eq q ''special:'' 8 then
                          (let special_id = atoi (drop 8 q)
                           in if in_range special_id
                              then incr_at (snd acc) (nat (special_id - 1))
                              else snd acc)
                        else snd acc))
      in (ww, sw))"

lemma strstr_Some_length:
  "strstr hay needle = Some r \<Longrightarrow> length r \<le> length hay"
  by (induction hay) (auto split: if_splits)

lemma strstr_Some_nonempty:
  "strstr hay needle = Some r \<Longrightarrow> needle \<noteq> [] \<Longrightarrow> r \<noteq> []"
  by (induction hay) (auto split: if_splits)

function count_clients :: "string \<Rightarrow> int list \<times> int list \<Rightarrow> int list \<times> int list" where
  "count_clients ptr acc =
     (case strstr ptr WORKSPACE_KEY of
        None \<Rightarrow> acc
      | Some p \<Rightarrow> count_clients (tl p) (count_entry p acc))"
  by pat_completeness auto
termination
proof (relation "measure (\<lambda>(ptr, acc). length ptr)")
  show "wf (measure (\<lambda>(ptr, acc). length ptr))" by simp
next
  fix ptr :: string and acc :: "int list \<times> int list" and p
  assume h: "strstr ptr WORKSPACE_KEY = Some p"
  have "p \<noteq> []" using strstr_Some_nonempty [OF h] by (simp add: WORKSPACE_KEY_def)
  moreover have "length p \<le> length ptr" using strstr_Some_length [OF h] .
  ultimately show "((tl p, count_entry p acc), (ptr, acc)) \<in> measure (\<lambda>(ptr, acc). length ptr)"
    by (cases p) auto
qed

definition CLIENTS_CMD :: string where
  "CLIENTS_CMD = ''hyprctl clients -j 2>/dev/null''"

definition refresh_window_counts :: "shell \<Rightarrow> WorkspaceModule \<Rightarrow> WorkspaceModule \<times> string list" where
  "refresh_window_counts sh m =
     (let m0 = m\<lparr>workspace_windows := replicate NUM_WORKSPACES 0,
                 special_windows := replicate NUM_WORKSPACES 0\<rparr>
      in case sh CLIENTS_CMD of
           None \<Rightarrow> (m0, [CLIENTS_CMD])
         | Some out \<Rightarrow>
             (let counts = count_clients (fread_all 32768 out)
                             (workspace_windows m0, special_windows m0)
              in (m0\<lparr>workspace_windows := fst counts, special_windows := snd counts\<rparr>,
                  [CLIENTS_CMD])))"

subsection \<open>Owning monitors from one listing of all workspaces\<close>

definition monitor_entry :: "string \<Rightarrow> string list \<Rightarrow> string list" where
  \<comment> \<open>the body of the scanning loop of \<open>refresh_workspace_monitors\<close>, \<open>ptr\<close> just after
      an \<open>"id":\<close>\<close>
  "monitor_entry ptr wm =
     (let ws_id = atoi ptr;
          mon_ptr = strstr ptr MONITOR_KEY;
          next_id = strstr ptr ID_KEY
      in case mon_ptr of
           None \<Rightarrow> wm
         | Some mp \<Rightarrow>
             if (case next_id of None \<Rightarrow> True | Some ni \<Rightarrow> ptr_lt mp ni) then
               (let q = dropWhile (\<lambda>c. c = CHR '' '' \<or> c = DQUOTE) (drop 10 mp)
                in if in_range ws_id
                   then wm[nat (ws_id - 1) := take 63 (takeWhile (\<lambda>c. c \<noteq> DQUOTE) q)]
                   else wm)
             else wm)"

function scan_monitors :: "string \<Rightarrow> string list \<Rightarrow> string list" where
  "scan_monitors ptr wm =
     (case strstr ptr ID_KEY of
        None \<Rightarrow> wm
      | Some p \<Rightarrow> scan_monitors (drop 5 p) (monitor_entry (drop 5 p) wm))"
  by pat_completeness auto
termination
proof (relation "measure (\<lambda>(ptr, wm). length ptr)")
  show "wf (measure (\<lambda>(ptr, wm). length ptr))" by simp
next
  fix ptr :: string and wm :: "string list" and p
  assume h: "strstr ptr ID_KEY = Some p"
  have "p \<noteq> []" using strstr_Some_nonempty [OF h] by (simp add: ID_KEY_def)
  moreover have "length p \<le> length ptr" using strstr_Some_length [OF h] .
  ultimately show "((drop 5 p, monitor_entry (drop 5 p) wm), (ptr, wm))
                     \<in> measure (\<lambda>(ptr, wm). length ptr)"
    by (cases p) auto
qed

definition WORKSPACES_CMD :: string where
  "WORKSPACES_CMD = ''hyprctl workspaces -j 2>/dev/null''"

definition refresh_workspace_monitors ::
  "shell \<Rightarrow> WorkspaceModule \<Rightarrow> WorkspaceModule \<times> string list" where
  "refresh_workspace_monitors sh m =
     (let m0 = m\<lparr>workspace_monitor := replicate NUM_WORKSPACES []\<rparr>
      in case sh WORKSPACES_CMD of
           None \<Rightarrow> (m0, [WORKSPACES_CMD])
         | Some out \<Rightarrow>
             (m0\<lparr>workspace_monitor :=
                    scan_monitors (fread_all 8192 out) (workspace_monitor m0)\<rparr>,
              [WORKSPACES_CMD]))"

subsection \<open>The event interpreter\<close>

definition handle_event :: "shell \<Rightarrow> WorkspaceModule \<Rightarrow> string \<Rightarrow> WorkspaceModule" where
  "handle_event sh m event =
     (if strncmp_eq event ''workspace>>'' 11 then
        (let ws = atoi (drop 11 event)
         in if in_range ws
            then m\<lparr>this_monitor_workspace := ws, user_focused_here := True\<rparr>
            else m)
      else if strncmp_eq event ''focusedmon>>'' 12 then
        (case strchr (drop 12 event) (CHR '','') of
           None \<Rightarrow> m
         | Some comma \<Rightarrow>
             (let mon_len = length (drop 12 event) - length comma
              in if mon_len < 64 then
                   (let mon = take mon_len (drop 12 event);
                        ws = atoi (drop 1 comma);
                        m1 = m\<lparr>user_focused_here := (mon = monitor_name m)\<rparr>
                    in if user_focused_here m1 \<and> in_range ws
                       then m1\<lparr>this_monitor_workspace := ws\<rparr>
                       else m1)
                 else m))
      else if strncmp_eq event ''activespecial>>'' 15 then
        fst (refresh_window_counts sh m)
      else if strncmp_eq event ''openwindow>>'' 12
              \<or> strncmp_eq event ''closewindow>>'' 13
              \<or> strncmp_eq event ''movewindow>>'' 12 then
        fst (refresh_window_counts sh m)
      else if strncmp_eq event ''createworkspace>>'' 17
              \<or> strncmp_eq event ''destroyworkspace>>'' 18 then
        fst (refresh_workspace_monitors sh m)
      else if strncmp_eq event ''moveworkspace>>'' 15 then
        fst (refresh_workspace_monitors sh m)
      else m)"

text \<open>
  The same function with the commands it runs beside the module: the two branches that
  read the payload run none, every other branch runs what the refresh it calls runs.
\<close>

definition handle_event_run ::
  "shell \<Rightarrow> WorkspaceModule \<Rightarrow> string \<Rightarrow> WorkspaceModule \<times> string list" where
  "handle_event_run sh m event =
     (if strncmp_eq event ''workspace>>'' 11 \<or> strncmp_eq event ''focusedmon>>'' 12 then
        (handle_event sh m event, [])
      else if strncmp_eq event ''activespecial>>'' 15 then
        refresh_window_counts sh m
      else if strncmp_eq event ''openwindow>>'' 12
              \<or> strncmp_eq event ''closewindow>>'' 13
              \<or> strncmp_eq event ''movewindow>>'' 12 then
        refresh_window_counts sh m
      else if strncmp_eq event ''createworkspace>>'' 17
              \<or> strncmp_eq event ''destroyworkspace>>'' 18 then
        refresh_workspace_monitors sh m
      else if strncmp_eq event ''moveworkspace>>'' 15 then
        refresh_workspace_monitors sh m
      else (m, []))"

subsection \<open>Visibility\<close>

definition on_this_monitor :: "WorkspaceModule \<Rightarrow> nat \<Rightarrow> bool" where
  \<comment> \<open>the local \<open>on_this_monitor\<close> of \<open>should_show_workspace\<close>: the monitor filter\<close>
  "on_this_monitor m ws_index =
     (all_outputs m
      \<or> monitor_name m = []
      \<or> workspace_monitor m ! ws_index = monitor_name m
      \<or> workspace_monitor m ! ws_index = [])"

definition should_show_workspace :: "WorkspaceModule \<Rightarrow> nat \<Rightarrow> bool" where
  "should_show_workspace m ws_index =
     (let ws_num = int ws_index + 1;
          is_this_monitor_ws = (ws_num = this_monitor_workspace m);
          has_windows = (workspace_windows m ! ws_index > 0);
          has_special = (special_windows m ! ws_index > 0)
      in if is_this_monitor_ws then True
         else if \<not> on_this_monitor m ws_index then False
         else if \<not> show_empty m \<and> \<not> has_windows \<and> \<not> has_special then False
         else True)"

subsection \<open>The full snapshot\<close>

definition MONITOR_WS_CMD :: "string \<Rightarrow> string" where
  "MONITOR_WS_CMD name =
     snprintf 256 (''hyprctl monitors -j | jq -r '.[] | select(.name == '' @ [DQUOTE] @ name
                   @ [DQUOTE] @ '') | .activeWorkspace.id' 2>/dev/null'')"

definition MONITOR_FOCUSED_CMD :: "string \<Rightarrow> string" where
  "MONITOR_FOCUSED_CMD name =
     snprintf 256 (''hyprctl monitors -j | jq -r '.[] | select(.name == '' @ [DQUOTE] @ name
                   @ [DQUOTE] @ '') | .focused' 2>/dev/null'')"

definition ACTIVE_WS_CMD :: string where
  "ACTIVE_WS_CMD = ''hyprctl activeworkspace -j | jq -r '.id' 2>/dev/null''"

definition WS_MONITOR_CMD :: "nat \<Rightarrow> string" where
  "WS_MONITOR_CMD i =
     snprintf 256 (''hyprctl workspaces -j | jq -r '.[] | select(.id == '' @ show_int (int i)
                   @ '') | .monitor' 2>/dev/null'')"

definition WS_WINDOWS_CMD :: "nat \<Rightarrow> string" where
  "WS_WINDOWS_CMD i =
     snprintf 256 (''hyprctl clients -j | jq '[.[] | select(.workspace.id == ''
                   @ show_int (int i) @ '')] | length' 2>/dev/null'')"

definition SPECIAL_WINDOWS_CMD :: "nat \<Rightarrow> string" where
  "SPECIAL_WINDOWS_CMD i =
     snprintf 256 (''hyprctl clients -j | jq '[.[] | select(.workspace.name == '' @ [DQUOTE]
                   @ ''special:'' @ show_int (int i) @ [DQUOTE]
                   @ '')] | length' 2>/dev/null'')"

definition fetch_initial_state ::
  "shell \<Rightarrow> WorkspaceModule \<Rightarrow> WorkspaceModule \<times> string list" where
  "fetch_initial_state sh m =
     (let (m1, cmds1) =
            (if monitor_name m \<noteq> [] then
               (m\<lparr>this_monitor_workspace := popen_int sh (MONITOR_WS_CMD (monitor_name m)),
                  user_focused_here :=
                    (popen_string sh (MONITOR_FOCUSED_CMD (monitor_name m)) 8 = ''true'')\<rparr>,
                [MONITOR_WS_CMD (monitor_name m), MONITOR_FOCUSED_CMD (monitor_name m)])
             else
               (m\<lparr>this_monitor_workspace := popen_int sh ACTIVE_WS_CMD,
                  user_focused_here := True\<rparr>,
                [ACTIVE_WS_CMD]));
          idx = [1..<NUM_WORKSPACES + 1]
      in (m1\<lparr>workspace_monitor := map (\<lambda>i. popen_string sh (WS_MONITOR_CMD i) 64) idx,
             workspace_windows := map (\<lambda>i. popen_int sh (WS_WINDOWS_CMD i)) idx,
             special_windows := map (\<lambda>i. popen_int sh (SPECIAL_WINDOWS_CMD i)) idx\<rparr>,
          cmds1 @ map WS_MONITOR_CMD idx @ map WS_WINDOWS_CMD idx
            @ map SPECIAL_WINDOWS_CMD idx))"

subsection \<open>Initialisation\<close>

definition parse_bool :: "string \<Rightarrow> bool" where
  "parse_bool v =
     (if v = ''true'' then True else if v = ''false'' then False else atoi v \<noteq> 0)"

definition calloc_module :: WorkspaceModule where
  \<comment> \<open>\<open>calloc(1, sizeof(WorkspaceModule))\<close>: every field zero\<close>
  "calloc_module =
     \<lparr>all_outputs = False, show_empty = False, monitor_name = [],
      this_monitor_workspace = 0, user_focused_here = False,
      workspace_windows = replicate NUM_WORKSPACES 0,
      special_windows = replicate NUM_WORKSPACES 0,
      workspace_monitor = replicate NUM_WORKSPACES [],
      socket_fd = 0\<rparr>"

definition config_entry :: "WorkspaceModule \<Rightarrow> string \<times> string \<Rightarrow> WorkspaceModule" where
  \<comment> \<open>the body of the loop over the configuration entries\<close>
  "config_entry m e =
     (if fst e = ''all-outputs'' then m\<lparr>all_outputs := parse_bool (snd e)\<rparr>
      else if fst e = ''show-empty'' then m\<lparr>show_empty := parse_bool (snd e)\<rparr>
      else if fst e = ''output'' then
        (let val = (if snd e \<noteq> [] \<and> hd (snd e) = DQUOTE then drop 1 (snd e) else snd e);
             name = take 63 val
         in m\<lparr>monitor_name :=
                 (if name \<noteq> [] \<and> last name = DQUOTE then butlast name else name)\<rparr>)
      else m)"

definition wbcffi_init_module :: "(string \<times> string) list \<Rightarrow> WorkspaceModule" where
  \<comment> \<open>the module \<open>wbcffi_init\<close> builds before it fetches the first snapshot\<close>
  "wbcffi_init_module config_entries =
     foldl config_entry
       (calloc_module\<lparr>this_monitor_workspace := 1, user_focused_here := True,
                      all_outputs := False, show_empty := False\<rparr>)
       config_entries"

section \<open>The reader thread\<close>

text \<open>
  What the thread does to the outside is recorded as a list of actions. What the outside
  gives the thread in one turn of its loop is a \<open>stimulus\<close>: the values of the volatile
  \<open>running\<close> flag at the two places the loop reads it, the bytes \<open>read\<close> delivers (none
  when \<open>read\<close> returns zero or fails), the descriptor the reconnection returns, and the
  shell that answers while the k-th event of the chunk is handled. A \<open>read\<close> delivers
  at most the 2047 bytes it is asked for, and fails on a negative descriptor.
\<close>

datatype action =
    Connect int
  | ReadData string
  | ReadFailed
  | Close int
  | Sleep nat
  | HandleEvent string
  | QueueUpdate

datatype thread_status = Exited | InLoop

record stimulus =
  running_at_loop :: bool
  read_bytes :: string
  running_at_retry :: bool
  reconnect_fd :: int
  popen_at :: "nat \<Rightarrow> shell"

definition dispatch ::
  "(nat \<Rightarrow> shell) \<Rightarrow> string \<Rightarrow> WorkspaceModule \<times> string list \<times> bool
     \<Rightarrow> WorkspaceModule \<times> string list \<times> bool" where
  \<comment> \<open>\<open>handle_event(mod, line); needs_update = 1;\<close> with the lines handed over so far\<close>
  "dispatch shs l st =
     (handle_event (shs (length (fst (snd st)))) (fst st) l, fst (snd st) @ [l], True)"

lemma strchr_Some_nonempty: "strchr s c = Some r \<Longrightarrow> r \<noteq> []"
  by (auto simp: strchr_def split: list.splits)

lemma strchr_Some_length: "strchr s c = Some r \<Longrightarrow> length r \<le> length s"
proof -
  assume "strchr s c = Some r"
  then have "r = dropWhile (\<lambda>x. x \<noteq> c) s"
    by (auto simp: strchr_def split: list.splits)
  then show ?thesis by (simp add: length_dropWhile_le)
qed

function event_loop ::
  "(nat \<Rightarrow> shell) \<Rightarrow> string \<Rightarrow> WorkspaceModule \<times> string list \<times> bool
     \<Rightarrow> WorkspaceModule \<times> string list \<times> bool" where
  "event_loop shs line st =
     (case strchr line NEWLINE of
        Some next \<Rightarrow>
          (let l = take (length line - length next) line
           in event_loop shs (drop 1 next) (if l \<noteq> [] then dispatch shs l st else st))
      | None \<Rightarrow> (if line \<noteq> [] then dispatch shs line st else st))"
  by pat_completeness auto
termination
proof (relation "measure (\<lambda>(shs, line, st). length line)")
  show "wf (measure (\<lambda>(shs, line, st). length line))" by simp
next
  fix shs :: "nat \<Rightarrow> shell" and line :: string
    and st :: "WorkspaceModule \<times> string list \<times> bool" and nxt l
  assume h: "strchr line NEWLINE = Some nxt"
  have "nxt \<noteq> []" using strchr_Some_nonempty [OF h] .
  moreover have "length nxt \<le> length line" using strchr_Some_length [OF h] .
  ultimately show "((shs, drop 1 nxt, if l \<noteq> [] then dispatch shs l st else st), (shs, line, st))
                     \<in> measure (\<lambda>(shs, line, st). length line)"
    by (cases nxt) auto
qed

definition process_chunk ::
  "(nat \<Rightarrow> shell) \<Rightarrow> WorkspaceModule \<Rightarrow> string \<Rightarrow> WorkspaceModule \<times> string list \<times> bool" where
  \<comment> \<open>\<open>buffer[bytes] = 0\<close>, then the loop over the lines of the buffer; the result is the
      module, the lines handed to \<open>handle_event\<close> and \<open>needs_update\<close>\<close>
  "process_chunk shs m buffer = event_loop shs (c_str buffer) (m, [], False)"

fun reader_loop ::
  "stimulus list \<Rightarrow> WorkspaceModule \<Rightarrow> WorkspaceModule \<times> action list \<times> thread_status" where
  "reader_loop [] m = (m, [], InLoop)"
| "reader_loop (s # rest) m =
     (if \<not> running_at_loop s then (m, [Close (socket_fd m)], Exited)
      else
        (let data = (if socket_fd m < 0 then [] else take 2047 (read_bytes s))
         in if data = [] then
              (if running_at_retry s then
                 (case reader_loop rest (m\<lparr>socket_fd := reconnect_fd s\<rparr>) of
                    (m', tr, status) \<Rightarrow>
                      (m', [ReadFailed, Close (socket_fd m), Sleep 1, Connect (reconnect_fd s)]
                           @ tr, status))
               else
                 (case reader_loop rest m of
                    (m', tr, status) \<Rightarrow> (m', ReadFailed # tr, status)))
            else
              (case process_chunk (popen_at s) m data of
                 (m1, calls, needs_update) \<Rightarrow>
                   (case reader_loop rest m1 of
                      (m', tr, status) \<Rightarrow>
                        (m', ReadData data # map HandleEvent calls
                             @ (if needs_update then [QueueUpdate] else []) @ tr,
                         status)))))"

definition ipc_monitor_thread ::
  "int \<Rightarrow> stimulus list \<Rightarrow> WorkspaceModule
     \<Rightarrow> WorkspaceModule \<times> action list \<times> thread_status" where
  \<comment> \<open>\<open>fd0\<close> is what the first \<open>connect_hyprland_socket()\<close> returns; the status is
      \<open>InLoop\<close> when the thread is still in its loop after the last stimulus\<close>
  "ipc_monitor_thread fd0 script m =
     (let m0 = m\<lparr>socket_fd := fd0\<rparr>
      in if fd0 < 0 then (m0, [Connect fd0], Exited)
         else (case reader_loop script m0 of
                 (m', tr, status) \<Rightarrow> (m', Connect fd0 # tr, status)))"

section \<open>Notions used to state the properties\<close>

text \<open>
  The value an event line writes into \<open>this_monitor_workspace\<close> of an instance whose
  monitor is \<open>name\<close>, read off the payload alone: a \<open>workspace\<close> event carries it
  directly, a \<open>focusedmon\<close> event carries it after the first comma and only for this
  monitor; other lines carry none.
\<close>

definition assigned_workspace :: "string \<Rightarrow> string \<Rightarrow> int option" where
  "assigned_workspace name event =
     (if take 11 event = ''workspace>>'' then
        (if in_range (atoi (drop 11 event)) then Some (atoi (drop 11 event)) else None)
      else if take 12 event = ''focusedmon>>'' then
        (let payload = drop 12 event;
             mon = takeWhile (\<lambda>c. c \<noteq> CHR '','') payload
         in if CHR '','' \<in> set payload \<and> length mon < 64 \<and> mon = name
               \<and> in_range (atoi (drop (length mon + 1) payload))
            then Some (atoi (drop (length mon + 1) payload))
            else None)
      else None)"

text \<open>The value carried by the last event of a sequence that carries one.\<close>

fun last_assignment :: "string \<Rightarrow> string list \<Rightarrow> int option" where
  "last_assignment name [] = None"
| "last_assignment name (e # es) =
     (case last_assignment name es of
        Some w \<Rightarrow> Some w
      | None \<Rightarrow> assigned_workspace name e)"

text \<open>The interpreter applied to a sequence of events in arrival order, each with the shell
  that answers while it is handled.\<close>

definition run_events :: "WorkspaceModule \<Rightarrow> (shell \<times> string) list \<Rightarrow> WorkspaceModule" where
  "run_events m evs = foldl (\<lambda>m' e. handle_event (fst e) m' (snd e)) m evs"

text \<open>The tags of the event table; a line is recognized when it starts with one of them
  followed by \<open>>>\<close>.\<close>

definition recognized_tags :: "string list" where
  "recognized_tags =
     [''workspace'', ''focusedmon'', ''activespecial'', ''openwindow'', ''closewindow'',
      ''movewindow'', ''createworkspace'', ''destroyworkspace'', ''moveworkspace'']"

definition recognized :: "string \<Rightarrow> bool" where
  "recognized event =
     list_ex (\<lambda>tag. take (length tag + 2) event = tag @ ''>>'') recognized_tags"

text \<open>A command that lists the windows: it starts with \<open>hyprctl clients -j\<close>.\<close>

definition is_clients_query :: "string \<Rightarrow> bool" where
  "is_clients_query cmd = (take 18 cmd = ''hyprctl clients -j'')"

text \<open>
  The lines of a buffer, as the loop of the reader cuts them: the non-empty stretches
  between newlines, the stretch after the last newline included.
\<close>

function chunk_lines :: "string \<Rightarrow> string list" where
  "chunk_lines line =
     (case strchr line NEWLINE of
        Some next \<Rightarrow>
          (let l = take (length line - length next) line
           in (if l \<noteq> [] then [l] else []) @ chunk_lines (drop 1 next))
      | None \<Rightarrow> (if line \<noteq> [] then [line] else []))"
  by pat_completeness auto
termination
proof (relation "measure length")
  show "wf (measure length)" by simp
next
  fix line :: string and nxt
  assume h: "strchr line NEWLINE = Some nxt"
  have "nxt \<noteq> []" using strchr_Some_nonempty [OF h] .
  moreover have "length nxt \<le> length line" using strchr_Some_length [OF h] .
  ultimately show "(drop 1 nxt, line) \<in> measure length"
    by (cases nxt) auto
qed

text \<open>The lines handed to \<open>handle_event\<close> in a list of actions.\<close>

fun handled :: "action list \<Rightarrow> string list" where
  "handled [] = []"
| "handled (HandleEvent l # tr) = l # handled tr"
| "handled (a # tr) = handled tr"


text \<open>
  The number a workspace id is written as in a payload: white space, an optional sign and
  the leading decimal digits, as an unbounded integer (0 when there is no digit); and the
  numbers a 32-bit C int holds.
\<close>

definition decimal_value :: "string \<Rightarrow> int" where
  "decimal_value s =
     (case dropWhile isspace s of
        [] \<Rightarrow> 0
      | c # cs \<Rightarrow>
          if c = CHR ''-'' then - digits_value 0 cs
          else if c = CHR ''+'' then digits_value 0 cs
          else digits_value 0 (c # cs))"

definition fits_int :: "int \<Rightarrow> bool" where
  "fits_int v = (- (2 ^ 31) \<le> v \<and> v < 2 ^ 31)"

text \<open>
  The events of the table that concern windows: a window opened, closed or moved, and a
  special workspace toggled.
\<close>

definition window_event :: "string \<Rightarrow> bool" where
  "window_event event =
     (take 15 event = ''activespecial>>'' \<or> take 12 event = ''openwindow>>''
      \<or> take 13 event = ''closewindow>>'' \<or> take 12 event = ''movewindow>>'')"

subsection \<open>Examples\<close>

definition example_module :: WorkspaceModule where
  "example_module =
     \<lparr>all_outputs = False, show_empty = False, monitor_name = ''DP-1'',
      this_monitor_workspace = 3, user_focused_here = False,
      workspace_windows = [2, 0, 0, 0, 1, 0, 0, 0, 0],
      special_windows = [0, 0, 0, 0, 0, 0, 0, 0, 0],
      workspace_monitor = [''DP-1'', [], ''DP-2'', ''DP-1'', ''DP-2'', [], [], [], []],
      socket_fd = 5\<rparr>"

definition no_shell :: shell where
  \<comment> \<open>a shell in which every \<open>popen\<close> fails\<close>
  "no_shell = (\<lambda>cmd. None)"

definition long_name :: string where
  \<comment> \<open>a monitor name that does not fit \<open>char mon[64]\<close>\<close>
  "long_name = replicate 64 (CHR ''A'')"

text \<open>
  Two turns of the loop with \<open>running\<close> set: one in which \<open>read\<close> delivers bytes,
  one in which it fails and the reconnection returns the given descriptor.
\<close>

definition example_read :: "string \<Rightarrow> stimulus" where
  "example_read bytes =
     \<lparr>running_at_loop = True, read_bytes = bytes, running_at_retry = True,
      reconnect_fd = 6, popen_at = (\<lambda>k. no_shell)\<rparr>"


definition quoted :: "string \<Rightarrow> string" where
  "quoted s = DQUOTE # s @ [DQUOTE]"

definition example_listing :: string where
  \<comment> \<open>a listing of two windows, one on workspace 4 and one on special:4\<close>
  "example_listing =
     ''[{'' @ quoted ''address'' @ '': '' @ quoted ''0x1'' @ '', '' @ quoted ''workspace''
     @ '': {'' @ quoted ''id'' @ '': 4, '' @ quoted ''name'' @ '': '' @ quoted ''4'' @ ''}, ''
     @ quoted ''class'' @ '': '' @ quoted ''kitty'' @ ''},{'' @ quoted ''address'' @ '': ''
     @ quoted ''0x2'' @ '', '' @ quoted ''workspace'' @ '': {'' @ quoted ''id''
     @ '': -98, '' @ quoted ''name'' @ '': '' @ quoted ''special:4'' @ ''}, ''
     @ quoted ''class'' @ '': '' @ quoted ''btop'' @ ''}]''"

definition example_shell :: shell where
  "example_shell = (\<lambda>cmd. if cmd = CLIENTS_CMD then Some example_listing else None)"

section \<open>Facts about the string functions and the interpreter\<close>

declare count_clients.simps [simp del]
declare scan_monitors.simps [simp del]
declare event_loop.simps [simp del]
declare chunk_lines.simps [simp del]

lemma strchr_eq:
  "strchr s c = (if c \<in> set s then Some (dropWhile (\<lambda>x. x \<noteq> c) s) else None)"
proof (cases "dropWhile (\<lambda>x. x \<noteq> c) s")
  case Nil
  then have "c \<notin> set s" by (auto simp: dropWhile_eq_Nil_conv)
  then show ?thesis unfolding strchr_def Nil by simp
next
  case (Cons a r)
  then have "dropWhile (\<lambda>x. x \<noteq> c) s \<noteq> []" by simp
  then have "c \<in> set s" by (auto simp: dropWhile_eq_Nil_conv)
  then show ?thesis unfolding strchr_def Cons by simp
qed

lemma length_minus_dropWhile:
  "length s - length (dropWhile P s) = length (takeWhile P s)"
proof -
  have "length (takeWhile P s) + length (dropWhile P s) = length s"
    by (metis length_append takeWhile_dropWhile_id)
  then show ?thesis by simp
qed

lemma take_length_takeWhile: "take (length (takeWhile P s)) s = takeWhile P s"
  by (metis append_eq_conv_conj takeWhile_dropWhile_id)

lemma drop_length_takeWhile: "drop (length (takeWhile P s)) s = dropWhile P s"
  by (metis append_eq_conv_conj takeWhile_dropWhile_id)

lemma refresh_window_counts_keeps:
  "this_monitor_workspace (fst (refresh_window_counts sh m)) = this_monitor_workspace m"
  "user_focused_here (fst (refresh_window_counts sh m)) = user_focused_here m"
  "monitor_name (fst (refresh_window_counts sh m)) = monitor_name m"
  by (simp_all add: refresh_window_counts_def Let_def split: option.splits)

lemma refresh_workspace_monitors_keeps:
  "this_monitor_workspace (fst (refresh_workspace_monitors sh m)) = this_monitor_workspace m"
  "user_focused_here (fst (refresh_workspace_monitors sh m)) = user_focused_here m"
  "monitor_name (fst (refresh_workspace_monitors sh m)) = monitor_name m"
  by (simp_all add: refresh_workspace_monitors_def Let_def split: option.splits)

lemma handle_event_monitor_name:
  "monitor_name (handle_event sh m event) = monitor_name m"
  by (simp add: handle_event_def Let_def refresh_window_counts_keeps
      refresh_workspace_monitors_keeps split: option.splits)

lemma drop_Suc_length_takeWhile:
  "drop (Suc (length (takeWhile P s))) s = drop 1 (dropWhile P s)"
  by (metis One_nat_def drop_drop drop_length_takeWhile plus_1_eq_Suc)

lemma focusedmon_active:
  "this_monitor_workspace
     (case strchr payload (CHR '','') of
        None \<Rightarrow> m
      | Some comma \<Rightarrow>
          (let mon_len = length payload - length comma
           in if mon_len < 64 then
                (let mon = take mon_len payload;
                     ws = atoi (drop 1 comma);
                     m1 = m\<lparr>user_focused_here := (mon = monitor_name m)\<rparr>
                 in if user_focused_here m1 \<and> in_range ws
                    then m1\<lparr>this_monitor_workspace := ws\<rparr>
                    else m1)
              else m))
   = (let mon = takeWhile (\<lambda>c. c \<noteq> CHR '','') payload
      in if CHR '','' \<in> set payload \<and> length mon < 64 \<and> mon = monitor_name m
            \<and> in_range (atoi (drop (length mon + 1) payload))
         then atoi (drop (length mon + 1) payload)
         else this_monitor_workspace m)"
proof (cases "CHR '','' \<in> set payload")
  case False
  then show ?thesis by (simp add: strchr_eq)
next
  case True
  define mon where "mon = takeWhile (\<lambda>c. c \<noteq> CHR '','') payload"
  define comma where "comma = dropWhile (\<lambda>c. c \<noteq> CHR '','') payload"
  have s: "strchr payload (CHR '','') = Some comma"
    using True by (simp add: strchr_eq comma_def)
  have len: "length payload - length comma = length mon"
    by (simp add: comma_def mon_def length_minus_dropWhile)
  have tk: "take (length mon) payload = mon"
    by (simp add: mon_def take_length_takeWhile)
  have dr: "drop (length mon + 1) payload = drop 1 comma"
    by (simp add: mon_def comma_def drop_Suc_length_takeWhile)
  show ?thesis
    unfolding s mon_def [symmetric] option.case Let_def len tk dr
    using True
    by (cases "length mon < 64"; cases "mon = monitor_name m";
        cases "in_range (atoi (drop 1 comma))") simp_all
qed

lemma case_if_Some:
  "(case (if C then Some a else None) of None \<Rightarrow> d | Some w \<Rightarrow> w) = (if C then a else d)"
  by simp

lemma handle_event_active:
  "this_monitor_workspace (handle_event sh m event)
     = (case assigned_workspace (monitor_name m) event of
          None \<Rightarrow> this_monitor_workspace m
        | Some w \<Rightarrow> w)"
proof (cases "take 11 event = ''workspace>>''")
  case True
  then show ?thesis
    by (simp add: handle_event_def assigned_workspace_def strncmp_eq_def Let_def)
next
  case nw: False
  show ?thesis
  proof (cases "take 12 event = ''focusedmon>>''")
    case True
    have he: "handle_event sh m event =
       (case strchr (drop 12 event) (CHR '','') of
        None \<Rightarrow> m
      | Some comma \<Rightarrow>
          (let mon_len = length (drop 12 event) - length comma
           in if mon_len < 64 then
                (let mon = take mon_len (drop 12 event);
                     ws = atoi (drop 1 comma);
                     m1 = m\<lparr>user_focused_here := (mon = monitor_name m)\<rparr>
                 in if user_focused_here m1 \<and> in_range ws
                    then m1\<lparr>this_monitor_workspace := ws\<rparr>
                    else m1)
              else m))"
      using nw True by (simp add: handle_event_def strncmp_eq_def)
    have aw: "assigned_workspace (monitor_name m) event =
        (let payload = drop 12 event;
             mon = takeWhile (\<lambda>c. c \<noteq> CHR '','') payload
         in if CHR '','' \<in> set payload \<and> length mon < 64 \<and> mon = monitor_name m
               \<and> in_range (atoi (drop (length mon + 1) payload))
            then Some (atoi (drop (length mon + 1) payload))
            else None)"
      unfolding assigned_workspace_def using nw True by simp
    have fa: "this_monitor_workspace (handle_event sh m event) =
        (let mon = takeWhile (\<lambda>c. c \<noteq> CHR '','') (drop 12 event)
         in if CHR '','' \<in> set (drop 12 event) \<and> length mon < 64 \<and> mon = monitor_name m
               \<and> in_range (atoi (drop (length mon + 1) (drop 12 event)))
            then atoi (drop (length mon + 1) (drop 12 event))
            else this_monitor_workspace m)"
      unfolding he by (rule focusedmon_active)
    show ?thesis
      unfolding fa aw Let_def case_if_Some by (rule refl)
  next
    case False
    then show ?thesis
      using nw
      by (simp add: handle_event_def assigned_workspace_def strncmp_eq_def
          refresh_window_counts_keeps refresh_workspace_monitors_keeps)
  qed
qed

lemma run_events_monitor_name: "monitor_name (run_events m evs) = monitor_name m"
  unfolding run_events_def
  by (induction evs arbitrary: m) (simp_all add: handle_event_monitor_name)

lemma strchr_append_Cons:
  "c \<notin> set xs \<Longrightarrow> strchr (xs @ c # ys) c = Some (c # ys)"
  by (induction xs) (auto simp: strchr_def)

lemma handle_event_focusedmon:
  assumes "CHR '','' \<notin> set mon" and "length mon < 64"
  shows "handle_event sh m (''focusedmon>>'' @ mon @ CHR '','' # ws_text) =
           (if mon = monitor_name m then
              (if in_range (atoi ws_text)
               then m\<lparr>user_focused_here := True, this_monitor_workspace := atoi ws_text\<rparr>
               else m\<lparr>user_focused_here := True\<rparr>)
            else m\<lparr>user_focused_here := False\<rparr>)"
proof -
  have s: "strchr (mon @ CHR '','' # ws_text) (CHR '','') = Some (CHR '','' # ws_text)"
    using assms(1) by (rule strchr_append_Cons)
  show ?thesis
    using assms(2) by (simp add: handle_event_def strncmp_eq_def s Let_def)
qed



lemma recognized_iff:
  "recognized event \<longleftrightarrow>
     take 11 event = ''workspace>>'' \<or> take 12 event = ''focusedmon>>''
     \<or> take 15 event = ''activespecial>>'' \<or> take 12 event = ''openwindow>>''
     \<or> take 13 event = ''closewindow>>'' \<or> take 12 event = ''movewindow>>''
     \<or> take 17 event = ''createworkspace>>'' \<or> take 18 event = ''destroyworkspace>>''
     \<or> take 15 event = ''moveworkspace>>''"
proof -
  have n: "Suc (Suc (Suc (Suc (Suc (Suc (Suc (Suc (Suc (Suc (Suc 0)))))))))) = 11"
    by simp
  show ?thesis
    by (simp add: recognized_def recognized_tags_def n)
qed

lemma handle_event_unrecognized: "\<not> recognized event \<Longrightarrow> handle_event sh m event = m"
  by (simp add: recognized_iff handle_event_def strncmp_eq_def)

lemma strtol_decimal: "strtol s = clamp_long (decimal_value s)"
proof (cases "dropWhile isspace s")
  case Nil
  show ?thesis unfolding strtol_def decimal_value_def Nil by (simp add: clamp_long_def)
next
  case (Cons c cs)
  show ?thesis unfolding strtol_def decimal_value_def Cons by simp
qed

lemma atoi_decimal: "atoi s = to_int32 (clamp_long (decimal_value s))"
  by (simp add: atoi_def strtol_decimal)

lemma to_int32_fits: "fits_int v \<Longrightarrow> to_int32 (clamp_long v) = v"
proof -
  assume f: "fits_int v"
  then have c: "clamp_long v = v" by (simp add: fits_int_def clamp_long_def)
  have "0 \<le> v + 2 ^ 31" "v + 2 ^ 31 < 2 ^ 32" using f by (simp_all add: fits_int_def)
  then have "(v + 2 ^ 31) mod 2 ^ 32 = v + 2 ^ 31" by (rule mod_pos_pos_trivial)
  then show ?thesis by (simp add: c to_int32_def)
qed

lemma atoi_fits: "fits_int (decimal_value s) \<Longrightarrow> atoi s = decimal_value s"
  by (simp add: atoi_decimal to_int32_fits)

section \<open>The tables keep their size\<close>

text \<open>
  The three tables have \<open>NUM_WORKSPACES\<close> entries after initialisation and after the
  full snapshot, and every event keeps them so.
\<close>

lemma incr_at_length: "length (incr_at a i) = length a"
  by (simp add: incr_at_def)

lemma count_entry_length:
  "length (fst (count_entry p acc)) = length (fst acc)"
  "length (snd (count_entry p acc)) = length (snd acc)"
  by (simp_all add: count_entry_def Let_def incr_at_length split: option.splits)

lemma count_clients_length:
  "length (fst (count_clients ptr acc)) = length (fst acc)
   \<and> length (snd (count_clients ptr acc)) = length (snd acc)"
proof (induction ptr acc rule: count_clients.induct)
  case (1 ptr acc)
  show ?case
  proof (cases "strstr ptr WORKSPACE_KEY")
    case None
    then show ?thesis by (subst (1 2) count_clients.simps) simp
  next
    case (Some p)
    show ?thesis
      using 1 [OF Some]
      by (subst (1 2) count_clients.simps) (simp add: Some count_entry_length)
  qed
qed

lemma monitor_entry_length: "length (monitor_entry ptr wm) = length wm"
  by (simp add: monitor_entry_def Let_def split: option.splits)

lemma scan_monitors_length: "length (scan_monitors ptr wm) = length wm"
proof (induction ptr wm rule: scan_monitors.induct)
  case (1 ptr wm)
  show ?case
  proof (cases "strstr ptr ID_KEY")
    case None
    then show ?thesis by (subst scan_monitors.simps) simp
  next
    case (Some p)
    show ?thesis
      using 1 [OF Some]
      by (subst scan_monitors.simps) (simp add: Some monitor_entry_length)
  qed
qed

lemma refresh_window_counts_valid:
  "valid_module m \<Longrightarrow> valid_module (fst (refresh_window_counts sh m))"
  by (simp add: refresh_window_counts_def valid_module_def Let_def count_clients_length
      split: option.splits)

lemma refresh_workspace_monitors_valid:
  "valid_module m \<Longrightarrow> valid_module (fst (refresh_workspace_monitors sh m))"
  by (simp add: refresh_workspace_monitors_def valid_module_def Let_def scan_monitors_length
      split: option.splits)

lemma handle_event_valid:
  "valid_module m \<Longrightarrow> valid_module (handle_event sh m event)"
proof -
  assume v: "valid_module m"
  have upd: "\<And>a b. valid_module (m\<lparr>this_monitor_workspace := a, user_focused_here := b\<rparr>)"
    "\<And>b. valid_module (m\<lparr>user_focused_here := b\<rparr>)"
    "\<And>a b. valid_module (m\<lparr>user_focused_here := b, this_monitor_workspace := a\<rparr>)"
    using v by (simp_all add: valid_module_def)
  show ?thesis
    using v upd refresh_window_counts_valid [OF v, of sh]
      refresh_workspace_monitors_valid [OF v, of sh]
    by (simp add: handle_event_def Let_def split: option.splits)
qed

lemma config_entry_valid: "valid_module m \<Longrightarrow> valid_module (config_entry m e)"
  by (simp add: config_entry_def valid_module_def Let_def)

lemma foldl_config_entry_valid:
  "valid_module m \<Longrightarrow> valid_module (foldl config_entry m es)"
  by (induction es arbitrary: m) (simp_all add: config_entry_valid)


lemma wbcffi_init_module_valid: "valid_module (wbcffi_init_module config_entries)"
  unfolding wbcffi_init_module_def
  by (rule foldl_config_entry_valid) (simp add: valid_module_def calloc_module_def)

lemma fetch_initial_state_valid: "valid_module (fst (fetch_initial_state sh m))"
  by (simp add: fetch_initial_state_def valid_module_def Let_def split: prod.splits)

section \<open>Facts about the reader\<close>

lemma dispatch_simps:
  "fst (dispatch shs l st) = handle_event (shs (length (fst (snd st)))) (fst st) l"
  "fst (snd (dispatch shs l st)) = fst (snd st) @ [l]"
  "snd (snd (dispatch shs l st)) = True"
  by (simp_all add: dispatch_def)

lemma event_loop_calls:
  "fst (snd (event_loop shs line st)) = fst (snd st) @ chunk_lines line"
proof (induction shs line st rule: event_loop.induct)
  case (1 shs line st)
  show ?case
  proof (cases "strchr line NEWLINE")
    case None
    then show ?thesis
      by (subst event_loop.simps, subst chunk_lines.simps) (simp add: dispatch_simps)
  next
    case (Some nxt)
    show ?thesis
      using 1 [OF Some refl]
      by (subst event_loop.simps, subst chunk_lines.simps)
         (simp add: Some Let_def dispatch_simps)
  qed
qed

lemma event_loop_needs_update:
  "snd (snd (event_loop shs line st)) = (snd (snd st) \<or> chunk_lines line \<noteq> [])"
proof (induction shs line st rule: event_loop.induct)
  case (1 shs line st)
  show ?case
  proof (cases "strchr line NEWLINE")
    case None
    then show ?thesis
      by (subst event_loop.simps, subst chunk_lines.simps) (simp add: dispatch_simps)
  next
    case (Some nxt)
    show ?thesis
      using 1 [OF Some refl]
      by (subst event_loop.simps, subst chunk_lines.simps)
         (simp add: Some Let_def dispatch_simps)
  qed
qed

lemma refresh_keeps_socket_fd:
  "socket_fd (fst (refresh_window_counts sh m)) = socket_fd m"
  "socket_fd (fst (refresh_workspace_monitors sh m)) = socket_fd m"
  by (simp_all add: refresh_window_counts_def refresh_workspace_monitors_def Let_def
      split: option.splits)

lemma handle_event_socket_fd: "socket_fd (handle_event sh m event) = socket_fd m"
  by (simp add: handle_event_def Let_def refresh_keeps_socket_fd split: option.splits)

lemma event_loop_socket_fd:
  "socket_fd (fst (event_loop shs line st)) = socket_fd (fst st)"
proof (induction shs line st rule: event_loop.induct)
  case (1 shs line st)
  show ?case
  proof (cases "strchr line NEWLINE")
    case None
    then show ?thesis
      by (subst event_loop.simps) (simp add: dispatch_simps handle_event_socket_fd)
  next
    case (Some nxt)
    show ?thesis
      using 1 [OF Some refl]
      by (subst event_loop.simps)
         (simp add: Some Let_def dispatch_simps handle_event_socket_fd)
  qed
qed

lemma c_str_id: "NUL \<notin> set buf \<Longrightarrow> c_str buf = buf"
  by (auto simp: c_str_def takeWhile_eq_all_conv)

lemma strchr_None: "c \<notin> set s \<Longrightarrow> strchr s c = None"
  by (simp add: strchr_eq)

lemma chunk_lines_no_newline:
  "NEWLINE \<notin> set a \<Longrightarrow> chunk_lines a = (if a \<noteq> [] then [a] else [])"
  by (subst chunk_lines.simps) (simp add: strchr_None)

lemma chunk_lines_first_line:
  "NEWLINE \<notin> set b \<Longrightarrow>
     chunk_lines (b @ NEWLINE # post) = (if b \<noteq> [] then [b] else []) @ chunk_lines post"
  by (subst chunk_lines.simps) (simp add: strchr_append_Cons)

lemma chunk_lines_append:
  "chunk_lines (xs @ NEWLINE # ys) = chunk_lines xs @ chunk_lines ys"
proof (induction xs rule: chunk_lines.induct)
  case (1 line)
  show ?case
  proof (cases "NEWLINE \<in> set line")
    case False
    then show ?thesis
      by (simp add: chunk_lines_first_line chunk_lines_no_newline)
  next
    case True
    define l where "l = takeWhile (\<lambda>c. c \<noteq> NEWLINE) line"
    define nxt where "nxt = dropWhile (\<lambda>c. c \<noteq> NEWLINE) line"
    have s: "strchr line NEWLINE = Some nxt"
      using True by (simp add: strchr_eq nxt_def)
    have nl: "NEWLINE \<notin> set l"
      unfolding l_def by (auto dest: set_takeWhileD)
    have "nxt \<noteq> []" using s by (rule strchr_Some_nonempty)
    moreover have "hd nxt = NEWLINE"
      using \<open>nxt \<noteq> []\<close> hd_dropWhile [of "\<lambda>c. c \<noteq> NEWLINE" line]
      unfolding nxt_def by simp
    ultimately obtain r where r: "nxt = NEWLINE # r" by (cases nxt) auto
    have line: "line = l @ NEWLINE # r"
      using r takeWhile_dropWhile_id [of "\<lambda>c. c \<noteq> NEWLINE" line]
      unfolding l_def nxt_def by simp
    have ih: "chunk_lines (r @ NEWLINE # ys) = chunk_lines r @ chunk_lines ys"
      using 1 [OF s refl] r by simp
    have "chunk_lines (line @ NEWLINE # ys) = chunk_lines (l @ NEWLINE # (r @ NEWLINE # ys))"
      by (simp add: line)
    also have "\<dots> = (if l \<noteq> [] then [l] else []) @ chunk_lines (r @ NEWLINE # ys)"
      using nl by (rule chunk_lines_first_line)
    also have "\<dots> = ((if l \<noteq> [] then [l] else []) @ chunk_lines r) @ chunk_lines ys"
      by (simp add: ih)
    also have "(if l \<noteq> [] then [l] else []) @ chunk_lines r = chunk_lines line"
      unfolding line using nl by (rule chunk_lines_first_line [symmetric])
    finally show ?thesis .
  qed
qed

lemma handled_append: "handled (xs @ ys) = handled xs @ handled ys"
  by (induction xs rule: handled.induct) simp_all

lemma handled_map_HandleEvent: "handled (map HandleEvent calls) = calls"
  by (induction calls) simp_all

lemma process_chunk_calls:
  "fst (snd (process_chunk shs m buffer)) = chunk_lines (c_str buffer)"
  by (simp add: process_chunk_def event_loop_calls)

lemma process_chunk_needs_update:
  "snd (snd (process_chunk shs m buffer)) = (chunk_lines (c_str buffer) \<noteq> [])"
  by (simp add: process_chunk_def event_loop_needs_update)

lemma process_chunk_socket_fd:
  "socket_fd (fst (process_chunk shs m buffer)) = socket_fd m"
  by (simp add: process_chunk_def event_loop_socket_fd)

lemma reader_loop_data:
  assumes "running_at_loop s" and "0 \<le> socket_fd m" and "read_bytes s \<noteq> []"
    and "length (read_bytes s) \<le> 2047"
  shows "reader_loop (s # rest) m =
           (fst (reader_loop rest (fst (process_chunk (popen_at s) m (read_bytes s)))),
            ReadData (read_bytes s)
              # map HandleEvent (fst (snd (process_chunk (popen_at s) m (read_bytes s))))
              @ (if snd (snd (process_chunk (popen_at s) m (read_bytes s)))
                 then [QueueUpdate] else [])
              @ fst (snd (reader_loop rest (fst (process_chunk (popen_at s) m (read_bytes s))))),
            snd (snd (reader_loop rest (fst (process_chunk (popen_at s) m (read_bytes s))))))"
  using assms by (simp add: Let_def split: prod.splits)

lemma reader_loop_handled:
  assumes "0 \<le> socket_fd m"
    and "\<forall>s \<in> set script. running_at_loop s \<and> read_bytes s \<noteq> []
           \<and> length (read_bytes s) \<le> 2047"
  shows "handled (fst (snd (reader_loop script m)))
           = concat (map (\<lambda>s. chunk_lines (c_str (read_bytes s))) script)"
  using assms
proof (induction script arbitrary: m)
  case Nil
  show ?case by simp
next
  case (Cons s rest)
  have s: "running_at_loop s" "read_bytes s \<noteq> []" "length (read_bytes s) \<le> 2047"
    using Cons.prems(2) by simp_all
  have fd: "0 \<le> socket_fd (fst (process_chunk (popen_at s) m (read_bytes s)))"
    using Cons.prems(1) by (simp add: process_chunk_socket_fd)
  have ih: "handled (fst (snd (reader_loop rest
               (fst (process_chunk (popen_at s) m (read_bytes s))))))
             = concat (map (\<lambda>s. chunk_lines (c_str (read_bytes s))) rest)"
    using Cons.IH [OF fd] Cons.prems(2) by simp
  show ?case
    unfolding reader_loop_data [OF s(1) Cons.prems(1) s(2) s(3)]
    by (simp add: handled_append handled_map_HandleEvent ih process_chunk_calls)
qed

lemma process_chunk_single_line:
  assumes "event \<noteq> []" and "NEWLINE \<notin> set event" and "NUL \<notin> set event"
  shows "process_chunk shs m (event @ [NEWLINE]) = (handle_event (shs 0) m event, [event], True)"
proof -
  have c: "c_str (event @ [NEWLINE]) = event @ [NEWLINE]"
    using assms(3) by (simp add: c_str_id)
  have s: "strchr (event @ [NEWLINE]) NEWLINE = Some [NEWLINE]"
    using assms(2) by (rule strchr_append_Cons)
  have e: "strchr [] NEWLINE = None" by (simp add: strchr_def)
  show ?thesis
    unfolding process_chunk_def c
    by (subst event_loop.simps, subst event_loop.simps)
       (simp add: s e assms(1) dispatch_def)
qed



section \<open>Facts about the snapshot\<close>

lemma clients_query_kinds:
  "\<not> is_clients_query (MONITOR_WS_CMD name)"
  "\<not> is_clients_query (MONITOR_FOCUSED_CMD name)"
  "\<not> is_clients_query ACTIVE_WS_CMD"
  "\<not> is_clients_query (WS_MONITOR_CMD i)"
  "is_clients_query (WS_WINDOWS_CMD i)"
  "is_clients_query (SPECIAL_WINDOWS_CMD i)"
  "is_clients_query CLIENTS_CMD"
  by (simp_all add: is_clients_query_def MONITOR_WS_CMD_def MONITOR_FOCUSED_CMD_def
      ACTIVE_WS_CMD_def WS_MONITOR_CMD_def WS_WINDOWS_CMD_def SPECIAL_WINDOWS_CMD_def
      CLIENTS_CMD_def snprintf_def)

lemma filter_map_all: "(\<And>x. P (f x)) \<Longrightarrow> filter P (map f xs) = map f xs"
  by (induction xs) simp_all

lemma filter_map_none: "(\<And>x. \<not> P (f x)) \<Longrightarrow> filter P (map f xs) = []"
  by (induction xs) simp_all

lemma fetch_initial_state_cmds:
  "snd (fetch_initial_state sh m) =
     (if monitor_name m \<noteq> []
      then [MONITOR_WS_CMD (monitor_name m), MONITOR_FOCUSED_CMD (monitor_name m)]
      else [ACTIVE_WS_CMD])
     @ map WS_MONITOR_CMD [1..<NUM_WORKSPACES + 1]
     @ map WS_WINDOWS_CMD [1..<NUM_WORKSPACES + 1]
     @ map SPECIAL_WINDOWS_CMD [1..<NUM_WORKSPACES + 1]"
  by (simp add: fetch_initial_state_def Let_def split: prod.splits)

lemma handle_event_run_fst: "fst (handle_event_run sh m event) = handle_event sh m event"
  by (simp add: handle_event_run_def handle_event_def)

lemma window_event_not_payload_event:
  assumes "window_event event"
  shows "take 11 event \<noteq> ''workspace>>''" and "take 12 event \<noteq> ''focusedmon>>''"
  using assms by (cases event; auto simp: window_event_def)+

lemma handle_event_run_window:
  assumes "window_event event"
  shows "handle_event_run sh m event = refresh_window_counts sh m"
  using assms window_event_not_payload_event [OF assms]
  by (auto simp: handle_event_run_def strncmp_eq_def window_event_def)

lemma refresh_cmds:
  "snd (refresh_window_counts sh m) = [CLIENTS_CMD]"
  "snd (refresh_workspace_monitors sh m) = [WORKSPACES_CMD]"
  by (simp_all add: refresh_window_counts_def refresh_workspace_monitors_def Let_def
      split: option.splits)

lemma cmds_differ: "CLIENTS_CMD \<noteq> WORKSPACES_CMD"
  by (simp add: CLIENTS_CMD_def WORKSPACES_CMD_def)

lemma handle_event_run_other:
  assumes "\<not> window_event event"
  shows "CLIENTS_CMD \<notin> set (snd (handle_event_run sh m event))"
  using assms
  by (auto simp: handle_event_run_def strncmp_eq_def window_event_def refresh_cmds cmds_differ)

lemma clients_cmd_not_per_workspace:
  "CLIENTS_CMD \<noteq> WS_WINDOWS_CMD i" "CLIENTS_CMD \<noteq> SPECIAL_WINDOWS_CMD i"
proof -
  have a: "take 20 CLIENTS_CMD = ''hyprctl clients -j 2''" by (simp add: CLIENTS_CMD_def)
  have b: "take 20 (WS_WINDOWS_CMD i) = ''hyprctl clients -j |''"
    by (simp add: WS_WINDOWS_CMD_def snprintf_def)
  have c: "take 20 (SPECIAL_WINDOWS_CMD i) = ''hyprctl clients -j |''"
    by (simp add: SPECIAL_WINDOWS_CMD_def snprintf_def)
  show "CLIENTS_CMD \<noteq> WS_WINDOWS_CMD i"
  proof
    assume "CLIENTS_CMD = WS_WINDOWS_CMD i"
    then have "take 20 CLIENTS_CMD = take 20 (WS_WINDOWS_CMD i)" by simp
    then show False unfolding a b by simp
  qed
  show "CLIENTS_CMD \<noteq> SPECIAL_WINDOWS_CMD i"
  proof
    assume "CLIENTS_CMD = SPECIAL_WINDOWS_CMD i"
    then have "take 20 CLIENTS_CMD = take 20 (SPECIAL_WINDOWS_CMD i)" by simp
    then show False unfolding a c by simp
  qed
qed

lemma fetch_initial_state_no_bulk_query:
  "CLIENTS_CMD \<notin> set (snd (fetch_initial_state sh m))"
proof
  assume "CLIENTS_CMD \<in> set (snd (fetch_initial_state sh m))"
  then have "CLIENTS_CMD \<in> set (filter is_clients_query (snd (fetch_initial_state sh m)))"
    by (simp add: clients_query_kinds)
  then have "CLIENTS_CMD \<in> set (map WS_WINDOWS_CMD [1..<NUM_WORKSPACES + 1]
                                 @ map SPECIAL_WINDOWS_CMD [1..<NUM_WORKSPACES + 1])"
    unfolding fetch_initial_state_cmds
    by (simp add: clients_query_kinds filter_map_all filter_map_none del: upt_Suc)
  then show False
    using clients_cmd_not_per_workspace by (auto simp del: upt_Suc)
qed

section \<open>Values on the examples\<close>

lemma atoi_examples:
  "atoi ''10'' = 10" "atoi ''0'' = 0" "atoi ''7'' = 7" "atoi ''3'' = 3" "atoi ''5'' = 5"
  "atoi ''12'' = 12" "atoi ''2'' = 2"
  by code_simp+

lemma decimal_examples:
  "decimal_value ''10'' = 10" "decimal_value ''0'' = 0" "decimal_value ''7'' = 7"
  by code_simp+

lemma window_event_examples:
  "window_event ''openwindow>>a,b''" "\<not> window_event ''workspace>>3''"
  by (simp_all add: window_event_def)

lemma last_assignment_example:
  "last_assignment ''DP-1''
     [''workspace>>3'', ''focusedmon>>DP-2,5'', ''focusedmon>>DP-1,7'', ''openwindow>>a,b'',
      ''workspace>>12''] = Some 7"
  by code_simp

lemma example_listing_read: "fread_all 32768 example_listing = example_listing"
proof -
  have "length example_listing \<le> 32767"
    by (simp add: example_listing_def quoted_def)
  then have "take (32768 - 1) example_listing = example_listing" by simp
  moreover have "c_str example_listing = example_listing" by code_simp
  ultimately show ?thesis by (simp add: fread_all_def)
qed

lemma example_listing_counts:
  "count_clients (fread_all 32768 example_listing)
     (replicate NUM_WORKSPACES 0, replicate NUM_WORKSPACES 0)
   = ([0, 0, 0, 1, 0, 0, 0, 0, 0], [0, 0, 0, 1, 0, 0, 0, 0, 0])"
  unfolding example_listing_read by code_simp

lemma chunk_lines_examples:
  "chunk_lines (''openwindow>>a,b'' @ [NEWLINE]) = [''openwindow>>a,b'']"
  "chunk_lines (''focusedmon>>DP-2,1'' @ [NEWLINE]) = [''focusedmon>>DP-2,1'']"
  by code_simp+


section \<open>Visibility of the active workspace\<close>

text \<open>
  C1. For every slot index in 1..9 (\<open>ws_index\<close> in 0..8), every state and every
  configuration, \<open>should_show_workspace\<close> returns true for the slot that equals
  \<open>this_monitor_workspace\<close>, whatever the two filters and the slot's owning monitor are.
\<close>

theorem active_workspace_always_shown:
  assumes "valid_module m" and "ws_index < NUM_WORKSPACES"
    and "int ws_index + 1 = this_monitor_workspace m"
  shows "should_show_workspace m ws_index"
  using assms by (simp add: should_show_workspace_def)

text \<open>
  Slot 3 of the example is the active one; it is empty, it belongs to another monitor and
  both filters are on, and it is shown.
\<close>

theorem active_workspace_always_shown_witness:
  "valid_module example_module \<and> (2::nat) < NUM_WORKSPACES
   \<and> int 2 + 1 = this_monitor_workspace example_module
   \<and> \<not> on_this_monitor example_module 2
   \<and> workspace_windows example_module ! 2 = 0 \<and> special_windows example_module ! 2 = 0
   \<and> should_show_workspace example_module 2"
  using active_workspace_always_shown [of example_module 2]
  by (simp add: example_module_def valid_module_def on_this_monitor_def)

section \<open>The monitor-focus-change event\<close>

text \<open>
  C2, as the code has it. For a \<open>focusedmon\<close> event whose payload is \<open>mon,ws\<close>, with
  \<open>mon\<close> the text before the first comma: when \<open>mon\<close> is shorter than 64 characters and
  equals the monitor name of the instance, \<open>user_focused_here\<close> becomes true and the active
  workspace becomes the int that \<open>atoi\<close> reads from \<open>ws\<close> if that int lies in 1..9, and
  keeps its value otherwise; when \<open>mon\<close> is shorter than 64 characters and differs,
  \<open>user_focused_here\<close> becomes false and the active workspace keeps its value; when
  \<open>mon\<close> has 64 characters or more the event changes nothing. The int that \<open>atoi\<close>
  reads is the workspace id as written, saturated to 64 bits and wrapped to 32: the id
  itself when it fits an int.
\<close>

theorem focusedmon_sets_focus_and_workspace:
  assumes "CHR '','' \<notin> set mon"
  shows "(length mon < 64 \<and> mon = monitor_name m \<longrightarrow>
            user_focused_here (handle_event sh m (''focusedmon>>'' @ mon @ CHR '','' # ws_text))
            \<and> this_monitor_workspace
                 (handle_event sh m (''focusedmon>>'' @ mon @ CHR '','' # ws_text))
               = (if in_range (atoi ws_text) then atoi ws_text else this_monitor_workspace m))
         \<and> (length mon < 64 \<and> mon \<noteq> monitor_name m \<longrightarrow>
              \<not> user_focused_here
                   (handle_event sh m (''focusedmon>>'' @ mon @ CHR '','' # ws_text))
              \<and> this_monitor_workspace
                   (handle_event sh m (''focusedmon>>'' @ mon @ CHR '','' # ws_text))
                 = this_monitor_workspace m)
         \<and> (64 \<le> length mon \<longrightarrow>
              handle_event sh m (''focusedmon>>'' @ mon @ CHR '','' # ws_text) = m)
         \<and> atoi ws_text = to_int32 (clamp_long (decimal_value ws_text))
         \<and> (fits_int (decimal_value ws_text) \<longrightarrow> atoi ws_text = decimal_value ws_text)"
proof -
  have main: "(length mon < 64 \<and> mon = monitor_name m \<longrightarrow>
            user_focused_here (handle_event sh m (''focusedmon>>'' @ mon @ CHR '','' # ws_text))
            \<and> this_monitor_workspace
                 (handle_event sh m (''focusedmon>>'' @ mon @ CHR '','' # ws_text))
               = (if in_range (atoi ws_text) then atoi ws_text else this_monitor_workspace m))
         \<and> (length mon < 64 \<and> mon \<noteq> monitor_name m \<longrightarrow>
              \<not> user_focused_here
                   (handle_event sh m (''focusedmon>>'' @ mon @ CHR '','' # ws_text))
              \<and> this_monitor_workspace
                   (handle_event sh m (''focusedmon>>'' @ mon @ CHR '','' # ws_text))
                 = this_monitor_workspace m)
         \<and> (64 \<le> length mon \<longrightarrow>
              handle_event sh m (''focusedmon>>'' @ mon @ CHR '','' # ws_text) = m)"
  proof (cases "length mon < 64")
    case True
    show ?thesis
      unfolding handle_event_focusedmon [OF assms True] using True by simp
  next
    case False
    have s: "strchr (mon @ CHR '','' # ws_text) (CHR '','') = Some (CHR '','' # ws_text)"
      using assms by (rule strchr_append_Cons)
    have "handle_event sh m (''focusedmon>>'' @ mon @ CHR '','' # ws_text) = m"
      using False by (simp add: handle_event_def strncmp_eq_def s Let_def)
    then show ?thesis using False by simp
  qed
  have a: "atoi ws_text = to_int32 (clamp_long (decimal_value ws_text))"
    by (rule atoi_decimal)
  have b: "fits_int (decimal_value ws_text) \<longrightarrow> atoi ws_text = decimal_value ws_text"
    by (simp add: atoi_fits)
  show ?thesis
    by (intro conjI main [THEN conjunct1] main [THEN conjunct2, THEN conjunct1]
        main [THEN conjunct2, THEN conjunct2] a b)
qed

text \<open>
  On the example, whose monitor is DP-1 and whose active workspace is 3: the event for
  DP-1 with workspace 7, the event for DP-2, and the event with a name of 64 characters.
\<close>

theorem focusedmon_sets_focus_and_workspace_witness:
  "CHR '','' \<notin> set ''DP-1'' \<and> CHR '','' \<notin> set ''DP-2'' \<and> CHR '','' \<notin> set long_name
   \<and> ''DP-1'' = monitor_name example_module \<and> \<not> user_focused_here example_module
   \<and> fits_int (decimal_value ''7'') \<and> atoi ''7'' = decimal_value ''7''
   \<and> user_focused_here (handle_event no_shell example_module ''focusedmon>>DP-1,7'')
   \<and> this_monitor_workspace (handle_event no_shell example_module ''focusedmon>>DP-1,7'') = 7
   \<and> \<not> user_focused_here (handle_event no_shell example_module ''focusedmon>>DP-2,7'')
   \<and> this_monitor_workspace (handle_event no_shell example_module ''focusedmon>>DP-2,7'') = 3
   \<and> handle_event no_shell example_module (''focusedmon>>'' @ long_name @ '',7'')
       = example_module"
  using focusedmon_sets_focus_and_workspace [of "''DP-1''" example_module no_shell "''7''"]
    focusedmon_sets_focus_and_workspace [of "''DP-2''" example_module no_shell "''7''"]
    focusedmon_sets_focus_and_workspace [of long_name example_module no_shell "''7''"]
  by (simp add: atoi_examples decimal_examples fits_int_def in_range_def example_module_def
      long_name_def)

text \<open>
  C2 as stated fails: the event \<open>focusedmon>>DP-1,10\<close> names the monitor of the
  instance and the active workspace does not become 10; an event that names a monitor of 64
  characters, which differs from DP-1, leaves \<open>user_focused_here\<close> true; and the event
  \<open>focusedmon>>DP-1,4294967301\<close> sets the active workspace to 5, the value its id wraps
  to.
\<close>

theorem focusedmon_counterexample:
  "monitor_name example_module = ''DP-1'' \<and> atoi ''10'' = 10
   \<and> this_monitor_workspace (handle_event no_shell example_module ''focusedmon>>DP-1,10'') \<noteq> 10
   \<and> long_name \<noteq> monitor_name example_module
   \<and> user_focused_here (example_module\<lparr>user_focused_here := True\<rparr>)
   \<and> user_focused_here
         (handle_event no_shell (example_module\<lparr>user_focused_here := True\<rparr>)
            (''focusedmon>>'' @ long_name @ '',2''))
   \<and> decimal_value ''4294967301'' = 4294967301
   \<and> this_monitor_workspace
         (handle_event no_shell example_module ''focusedmon>>DP-1,4294967301'') = 5"
  by code_simp

section \<open>Lines with an unknown tag\<close>

text \<open>
  C3, as the code has it. An event line that starts with none of the recognized tags
  leaves the module as it is; the reader all the same sets \<open>needs_update\<close> for it, as for
  every non-empty line, so a chunk that holds only this line still queues a redisplay: for
  any buffer, \<open>needs_update\<close> is set exactly when a line was handed to the interpreter.
\<close>

theorem unrecognized_event_changes_nothing:
  assumes "\<not> recognized event"
  shows "handle_event sh m event = m
         \<and> (event \<noteq> [] \<and> NEWLINE \<notin> set event \<and> NUL \<notin> set event \<longrightarrow>
              process_chunk shs m (event @ [NEWLINE]) = (m, [event], True))
         \<and> snd (snd (process_chunk shs m buffer))
             = (fst (snd (process_chunk shs m buffer)) \<noteq> [])"
  using assms
  by (simp add: handle_event_unrecognized process_chunk_single_line process_chunk_calls
      process_chunk_needs_update)

text \<open>The line \<open>workspacev2>>3,3\<close>, whose tag only starts like a recognized one.\<close>

theorem unrecognized_event_changes_nothing_witness:
  "\<not> recognized ''workspacev2>>3,3'' 
   \<and> handle_event no_shell example_module ''workspacev2>>3,3'' = example_module
   \<and> process_chunk (\<lambda>k. no_shell) example_module (''workspacev2>>3,3'' @ [NEWLINE])
       = (example_module, [''workspacev2>>3,3''], True)"
  using unrecognized_event_changes_nothing
          [of "''workspacev2>>3,3''" no_shell example_module "\<lambda>k. no_shell" "[]"]
  by (simp add: recognized_iff)

text \<open>
  C3 as stated fails in its second half: the unrecognized line \<open>configreloaded>>\<close> sets
  \<open>needs_update\<close>, and the thread queues the redisplay after handing the line over.
\<close>

theorem unrecognized_event_counterexample:
  "\<not> recognized ''configreloaded>>''
   \<and> snd (snd (process_chunk (\<lambda>k. no_shell) example_module (''configreloaded>>'' @ [NEWLINE])))
   \<and> fst (snd (ipc_monitor_thread 5 [example_read (''configreloaded>>'' @ [NEWLINE])]
                  example_module))
       = [Connect 5, ReadData (''configreloaded>>'' @ [NEWLINE]),
          HandleEvent ''configreloaded>>'', QueueUpdate]"
  by code_simp

section \<open>The monitor filter fails open\<close>

text \<open>
  C4. A slot whose owning monitor is absent (the empty string) passes the monitor filter,
  and its visibility is the one it has with the filter switched off; the filter rejects a
  slot, and changes its visibility, only when the owning monitor is known and differs from
  the monitor name of the instance.
\<close>

theorem absent_owner_fails_open:
  assumes "valid_module m" and "ws_index < NUM_WORKSPACES"
  shows "(workspace_monitor m ! ws_index = [] \<longrightarrow>
            on_this_monitor m ws_index
            \<and> should_show_workspace m ws_index
                = should_show_workspace (m\<lparr>all_outputs := True\<rparr>) ws_index)
         \<and> (\<not> on_this_monitor m ws_index \<longrightarrow>
              workspace_monitor m ! ws_index \<noteq> []
              \<and> workspace_monitor m ! ws_index \<noteq> monitor_name m)
         \<and> (should_show_workspace m ws_index
                \<noteq> should_show_workspace (m\<lparr>all_outputs := True\<rparr>) ws_index \<longrightarrow>
              workspace_monitor m ! ws_index \<noteq> []
              \<and> workspace_monitor m ! ws_index \<noteq> monitor_name m)"
  by (auto simp: should_show_workspace_def on_this_monitor_def)

text \<open>
  Slot 2 of the example has no owner and passes the filter; slot 5 has windows, belongs to
  DP-2 and is hidden on DP-1 by the filter alone.
\<close>

theorem absent_owner_fails_open_witness:
  "valid_module example_module \<and> (1::nat) < NUM_WORKSPACES \<and> (4::nat) < NUM_WORKSPACES
   \<and> workspace_monitor example_module ! 1 = []
   \<and> on_this_monitor example_module 1
   \<and> \<not> on_this_monitor example_module 4
   \<and> \<not> should_show_workspace example_module 4
   \<and> should_show_workspace (example_module\<lparr>all_outputs := True\<rparr>) 4
   \<and> workspace_monitor example_module ! 4 = ''DP-2''"
  using absent_owner_fails_open [of example_module 1] absent_owner_fails_open [of example_module 4]
  by (simp add: example_module_def valid_module_def on_this_monitor_def should_show_workspace_def)

section \<open>The last assignment wins\<close>

text \<open>
  C5. After any finite sequence of events applied in arrival order, the active workspace
  is the value carried by the last event of the sequence that carries one, and the initial
  value when no event of the sequence carries one.
\<close>

theorem last_assignment_wins:
  "this_monitor_workspace (run_events m evs)
     = (case last_assignment (monitor_name m) (map snd evs) of
          None \<Rightarrow> this_monitor_workspace m
        | Some w \<Rightarrow> w)"
proof (induction evs arbitrary: m)
  case Nil
  show ?case by (simp add: run_events_def)
next
  case (Cons e es)
  have step: "run_events m (e # es) = run_events (handle_event (fst e) m (snd e)) es"
    by (simp add: run_events_def)
  show ?case
    unfolding step Cons.IH
    by (simp add: handle_event_monitor_name handle_event_active split: option.splits)
qed

theorem last_assignment_wins_witness:
  "this_monitor_workspace
     (run_events example_module
        [(no_shell, ''workspace>>3''), (no_shell, ''focusedmon>>DP-2,5''),
         (no_shell, ''focusedmon>>DP-1,7''), (no_shell, ''openwindow>>a,b''),
         (no_shell, ''workspace>>12'')]) = 7"
  using last_assignment_wins [of example_module
        "[(no_shell, ''workspace>>3''), (no_shell, ''focusedmon>>DP-2,5''),
          (no_shell, ''focusedmon>>DP-1,7''), (no_shell, ''openwindow>>a,b''),
          (no_shell, ''workspace>>12'')]"]
    last_assignment_example
  by (simp add: example_module_def)

section \<open>The monitor-focus-change event before the monitor is known\<close>

text \<open>
  C6, as the code has it. While the monitor name of the instance is empty, a
  \<open>focusedmon\<close> event whose payload is \<open>mon,ws\<close> with \<open>mon\<close> non-empty, free of
  commas and shorter than 64 characters sets \<open>user_focused_here\<close> to false and changes
  nothing else.
\<close>

theorem unresolved_monitor_fails_closed:
  assumes "monitor_name m = []" and "mon \<noteq> []" and "CHR '','' \<notin> set mon"
    and "length mon < 64"
  shows "handle_event sh m (''focusedmon>>'' @ mon @ CHR '','' # ws_text)
           = m\<lparr>user_focused_here := False\<rparr>"
  unfolding handle_event_focusedmon [OF assms(3) assms(4)] using assms(1) assms(2)
  by simp

text \<open>The module as initialised without an \<open>output\<close> entry, and the event for DP-1.\<close>

theorem unresolved_monitor_fails_closed_witness:
  "monitor_name (wbcffi_init_module []) = [] \<and> ''DP-1'' \<noteq> [] \<and> CHR '','' \<notin> set ''DP-1''
   \<and> length ''DP-1'' < (64::nat)
   \<and> user_focused_here (wbcffi_init_module [])
   \<and> handle_event no_shell (wbcffi_init_module []) ''focusedmon>>DP-1,3''
        = (wbcffi_init_module [])\<lparr>user_focused_here := False\<rparr>"
  using unresolved_monitor_fails_closed [of "wbcffi_init_module []" "''DP-1''" no_shell "''3''"]
  by (simp add: wbcffi_init_module_def calloc_module_def)

text \<open>
  C6 as stated fails: with the monitor name empty, the event \<open>focusedmon>>,3\<close>, whose
  monitor field is empty too, sets \<open>user_focused_here\<close> from false to true; and an event
  that names a monitor of 64 characters leaves \<open>user_focused_here\<close> true.
\<close>

theorem unresolved_monitor_counterexample:
  "monitor_name (wbcffi_init_module []) = []
   \<and> monitor_name (handle_event no_shell (wbcffi_init_module []) ''focusedmon>>DP-2,5'') = []
   \<and> \<not> user_focused_here (handle_event no_shell (wbcffi_init_module []) ''focusedmon>>DP-2,5'')
   \<and> user_focused_here
         (handle_event no_shell
            (handle_event no_shell (wbcffi_init_module []) ''focusedmon>>DP-2,5'')
            ''focusedmon>>,3'')
   \<and> user_focused_here
         (handle_event no_shell (wbcffi_init_module []) (''focusedmon>>'' @ long_name @ '',2''))"
  by code_simp

section \<open>Window counts in the full snapshot\<close>

text \<open>
  C7, as the code has it. The full snapshot lists the windows once per workspace and
  once per special workspace, eighteen queries in all, and takes each count from the output
  of its own query; the single query for all windows is not among its commands. That query
  belongs to \<open>refresh_window_counts\<close>, which runs exactly that command and takes both
  tables from one scan of its output; \<open>handle_event\<close> runs \<open>refresh_window_counts\<close>, and
  so the single query, for the events that concern windows, and runs the query for no
  other line.
\<close>

theorem snapshot_counts_windows_per_workspace:
  "filter is_clients_query (snd (fetch_initial_state sh m))
     = map WS_WINDOWS_CMD [1..<NUM_WORKSPACES + 1]
       @ map SPECIAL_WINDOWS_CMD [1..<NUM_WORKSPACES + 1]
   \<and> length (filter is_clients_query (snd (fetch_initial_state sh m))) = 2 * NUM_WORKSPACES
   \<and> workspace_windows (fst (fetch_initial_state sh m))
       = map (\<lambda>i. popen_int sh (WS_WINDOWS_CMD i)) [1..<NUM_WORKSPACES + 1]
   \<and> special_windows (fst (fetch_initial_state sh m))
       = map (\<lambda>i. popen_int sh (SPECIAL_WINDOWS_CMD i)) [1..<NUM_WORKSPACES + 1]
   \<and> snd (refresh_window_counts sh m) = [CLIENTS_CMD]
   \<and> (sh CLIENTS_CMD = Some out \<longrightarrow>
        (workspace_windows (fst (refresh_window_counts sh m)),
         special_windows (fst (refresh_window_counts sh m)))
        = count_clients (fread_all 32768 out)
            (replicate NUM_WORKSPACES 0, replicate NUM_WORKSPACES 0))
   \<and> CLIENTS_CMD \<notin> set (snd (fetch_initial_state sh m))
   \<and> fst (handle_event_run sh m event) = handle_event sh m event
   \<and> (window_event event \<longrightarrow> handle_event_run sh m event = refresh_window_counts sh m)
   \<and> (\<not> window_event event \<longrightarrow> CLIENTS_CMD \<notin> set (snd (handle_event_run sh m event)))"
proof -
  have f: "filter is_clients_query (snd (fetch_initial_state sh m))
     = map WS_WINDOWS_CMD [1..<NUM_WORKSPACES + 1]
       @ map SPECIAL_WINDOWS_CMD [1..<NUM_WORKSPACES + 1]"
    unfolding fetch_initial_state_cmds
    by (simp add: clients_query_kinds filter_map_all filter_map_none del: upt_Suc)
  have l: "length (filter is_clients_query (snd (fetch_initial_state sh m)))
             = 2 * NUM_WORKSPACES"
    unfolding f by simp
  have w1: "workspace_windows (fst (fetch_initial_state sh m))
       = map (\<lambda>i. popen_int sh (WS_WINDOWS_CMD i)) [1..<NUM_WORKSPACES + 1]"
    and w2: "special_windows (fst (fetch_initial_state sh m))
       = map (\<lambda>i. popen_int sh (SPECIAL_WINDOWS_CMD i)) [1..<NUM_WORKSPACES + 1]"
    by (simp_all add: fetch_initial_state_def Let_def split: prod.splits)
  have r: "snd (refresh_window_counts sh m) = [CLIENTS_CMD]"
    by (rule refresh_cmds)
  have c: "sh CLIENTS_CMD = Some out \<longrightarrow>
        (workspace_windows (fst (refresh_window_counts sh m)),
         special_windows (fst (refresh_window_counts sh m)))
        = count_clients (fread_all 32768 out)
            (replicate NUM_WORKSPACES 0, replicate NUM_WORKSPACES 0)"
    by (simp add: refresh_window_counts_def Let_def)
  have n: "CLIENTS_CMD \<notin> set (snd (fetch_initial_state sh m))"
    by (rule fetch_initial_state_no_bulk_query)
  have h1: "fst (handle_event_run sh m event) = handle_event sh m event"
    by (rule handle_event_run_fst)
  have h2: "window_event event \<longrightarrow> handle_event_run sh m event = refresh_window_counts sh m"
    by (simp add: handle_event_run_window)
  have h3: "\<not> window_event event \<longrightarrow> CLIENTS_CMD \<notin> set (snd (handle_event_run sh m event))"
    by (simp add: handle_event_run_other)
  show ?thesis by (intro conjI f l w1 w2 r c n h1 h2 h3)
qed

text \<open>
  A shell that answers the single query with a listing of one window on workspace 4 and
  one on special:4; the event \<open>openwindow>>a,b\<close> runs the query and takes the counts from
  it, the event \<open>workspace>>3\<close> does not run it.
\<close>

theorem snapshot_counts_windows_per_workspace_witness:
  "example_shell CLIENTS_CMD = Some example_listing
   \<and> workspace_windows (fst (refresh_window_counts example_shell example_module))
       = [0, 0, 0, 1, 0, 0, 0, 0, 0]
   \<and> special_windows (fst (refresh_window_counts example_shell example_module))
       = [0, 0, 0, 1, 0, 0, 0, 0, 0]
   \<and> snd (refresh_window_counts example_shell example_module) = [CLIENTS_CMD]
   \<and> length (filter is_clients_query (snd (fetch_initial_state example_shell example_module)))
       = 18
   \<and> window_event ''openwindow>>a,b''
   \<and> snd (handle_event_run example_shell example_module ''openwindow>>a,b'') = [CLIENTS_CMD]
   \<and> workspace_windows (handle_event example_shell example_module ''openwindow>>a,b'')
       = [0, 0, 0, 1, 0, 0, 0, 0, 0]
   \<and> \<not> window_event ''workspace>>3''
   \<and> CLIENTS_CMD \<notin> set (snd (handle_event_run example_shell example_module ''workspace>>3''))"
proof -
  note a = snapshot_counts_windows_per_workspace
             [of example_shell example_module example_listing "''openwindow>>a,b''"]
  note b = snapshot_counts_windows_per_workspace
             [of example_shell example_module example_listing "''workspace>>3''"]
  have run: "handle_event_run example_shell example_module ''openwindow>>a,b''
               = refresh_window_counts example_shell example_module"
    using a window_event_examples by blast
  have he: "handle_event example_shell example_module ''openwindow>>a,b''
               = fst (refresh_window_counts example_shell example_module)"
    using a run by simp
  have sh: "example_shell CLIENTS_CMD = Some example_listing" by (simp add: example_shell_def)
  have counts: "workspace_windows (fst (refresh_window_counts example_shell example_module))
       = [0, 0, 0, 1, 0, 0, 0, 0, 0]"
    "special_windows (fst (refresh_window_counts example_shell example_module))
       = [0, 0, 0, 1, 0, 0, 0, 0, 0]"
    using a sh example_listing_counts by simp_all
  have other: "CLIENTS_CMD \<notin> set (snd (handle_event_run example_shell example_module
                  ''workspace>>3''))"
    using b window_event_examples by blast
  show ?thesis
    using a sh counts run he other window_event_examples by simp
qed

text \<open>
  C7 as stated fails: the full snapshot runs eighteen commands that list the windows, and
  the single query for all windows is not among its commands.
\<close>

theorem snapshot_queries_counterexample:
  "length (filter is_clients_query (snd (fetch_initial_state no_shell example_module))) = 18
   \<and> CLIENTS_CMD \<notin> set (snd (fetch_initial_state no_shell example_module))"
  by code_simp

section \<open>A line split over two reads\<close>

text \<open>
  C8, as the code has it. The reader keeps nothing between two reads. When a chunk ends
  with the non-empty beginning \<open>a\<close> of a line and the next chunk starts with its non-empty
  end \<open>b\<close> and a newline, the interpreter is called with \<open>a\<close> and then with \<open>b\<close>:
  the lines handed over are the complete lines before \<open>a\<close>, then \<open>a\<close>, then \<open>b\<close>,
  then the lines after \<open>b\<close>.
\<close>

theorem split_line_handed_over_in_two_pieces:
  assumes "0 \<le> fd0" and "running_at_loop s1" and "running_at_loop s2"
    and "read_bytes s1 = pre @ a" and "pre = [] \<or> last pre = NEWLINE"
    and "a \<noteq> []" and "NEWLINE \<notin> set a"
    and "read_bytes s2 = b @ NEWLINE # post" and "b \<noteq> []" and "NEWLINE \<notin> set b"
    and "NUL \<notin> set (read_bytes s1)" and "NUL \<notin> set (read_bytes s2)"
    and "length (read_bytes s1) \<le> 2047" and "length (read_bytes s2) \<le> 2047"
  shows "handled (fst (snd (ipc_monitor_thread fd0 [s1, s2] m)))
           = chunk_lines pre @ [a, b] @ chunk_lines post"
proof -
  have c1: "chunk_lines (pre @ a) = chunk_lines pre @ [a]"
  proof (cases "pre = []")
    case True
    then show ?thesis
      using assms(6) assms(7) by (simp add: chunk_lines_no_newline)
  next
    case False
    then have "pre = butlast pre @ [NEWLINE]"
      using assms(5) append_butlast_last_id [of pre] by simp
    then obtain p where p: "pre = p @ [NEWLINE]" ..
    have "chunk_lines (pre @ a) = chunk_lines (p @ NEWLINE # a)" by (simp add: p)
    also have "\<dots> = chunk_lines p @ chunk_lines a" by (rule chunk_lines_append)
    also have "chunk_lines a = [a]"
      using assms(6) assms(7) by (simp add: chunk_lines_no_newline)
    also have "chunk_lines p = chunk_lines pre"
      using chunk_lines_append [of p "[]"] by (simp add: p chunk_lines_no_newline)
    finally show ?thesis .
  qed
  have c2: "chunk_lines (b @ NEWLINE # post) = b # chunk_lines post"
    using assms(9) assms(10) by (simp add: chunk_lines_first_line)
  have ne: "read_bytes s1 \<noteq> []" "read_bytes s2 \<noteq> []"
    using assms(4) assms(6) assms(8) by simp_all
  have h: "handled (fst (snd (reader_loop [s1, s2] (m\<lparr>socket_fd := fd0\<rparr>))))
             = concat (map (\<lambda>s. chunk_lines (c_str (read_bytes s))) [s1, s2])"
    using assms(1) assms(2) assms(3) assms(13) assms(14) ne
    by (intro reader_loop_handled) simp_all
  have "handled (fst (snd (ipc_monitor_thread fd0 [s1, s2] m)))
          = handled (fst (snd (reader_loop [s1, s2] (m\<lparr>socket_fd := fd0\<rparr>))))"
    using assms(1) by (simp add: ipc_monitor_thread_def Let_def split: prod.splits)
  also have "\<dots> = chunk_lines (pre @ a) @ chunk_lines (b @ NEWLINE # post)"
    unfolding h using assms(11) assms(12) 
    by (simp add: c_str_id assms(4) [symmetric] assms(8) [symmetric])
  finally show ?thesis by (simp add: c1 c2)
qed

text \<open>The line \<open>workspace>>7\<close> split after the tag, between two complete lines.\<close>

theorem split_line_handed_over_in_two_pieces_witness:
  "handled (fst (snd (ipc_monitor_thread 5
      [example_read (''openwindow>>a,b'' @ [NEWLINE] @ ''workspace>>''),
       example_read (''7'' @ [NEWLINE] @ ''focusedmon>>DP-2,1'' @ [NEWLINE])] example_module)))
   = [''openwindow>>a,b'', ''workspace>>'', ''7'', ''focusedmon>>DP-2,1'']"
  using split_line_handed_over_in_two_pieces
    [of 5 "example_read (''openwindow>>a,b'' @ [NEWLINE] @ ''workspace>>'')"
        "example_read (''7'' @ [NEWLINE] @ ''focusedmon>>DP-2,1'' @ [NEWLINE])"
        "''openwindow>>a,b'' @ [NEWLINE]" "''workspace>>''" "''7''"
        "''focusedmon>>DP-2,1'' @ [NEWLINE]" example_module]
    chunk_lines_examples
  by (simp add: example_read_def)

text \<open>
  C8 as stated fails: the line \<open>workspace>>7\<close> read in the two pieces \<open>workspace>>\<close>
  and \<open>7\<close> gives two calls of the interpreter, and the active workspace stays 3; read in
  one piece it becomes 7.
\<close>

theorem split_line_counterexample:
  "fst (snd (ipc_monitor_thread 5
        [example_read ''workspace>>'', example_read (''7'' @ [NEWLINE])] example_module))
     = [Connect 5, ReadData ''workspace>>'', HandleEvent ''workspace>>'', QueueUpdate,
        ReadData (''7'' @ [NEWLINE]), HandleEvent ''7'', QueueUpdate]
   \<and> this_monitor_workspace (fst (ipc_monitor_thread 5
        [example_read ''workspace>>'', example_read (''7'' @ [NEWLINE])] example_module)) = 3
   \<and> this_monitor_workspace (fst (ipc_monitor_thread 5
        [example_read (''workspace>>7'' @ [NEWLINE])] example_module)) = 7"
  by code_simp

section \<open>Reconnection\<close>




section \<open>The active workspace stays between 1 and 9\<close>




end
